theory Spec2Isabelle
  imports Main "HOL-Library.Multiset"
begin

section \<open>boost/pool/detail/mutex.hpp\<close>

text \<open>
  The header has two layers. The first is a program of the preprocessor: from the macros
  that are defined when the header is entered it chooses one of three mutex classes and
  binds the name \<open>default_mutex\<close> to it, or stops with \<open>#error\<close>. The second is the three
  classes themselves, whose member functions are single calls of the native
  synchronisation functions of the platform. Both layers are embedded below, in the order
  of the source.
\<close>

subsection \<open>The macros the header reads\<close>

text \<open>
  One flag for each macro tested with \<open>defined\<close> or \<open>#ifdef\<close>: true when the macro is
  defined. \<open>POSIX_THREADS\<close> stands for \<open>_POSIX_THREADS\<close>. A \<open>predefined\<close> record is the
  state after \<open>#include <boost/config.hpp>\<close> (line 12): what the user, the compiler and
  Boost.Config have defined.
\<close>

record predefined =
  BOOST_HAS_THREADS :: bool
  BOOST_NO_MT :: bool
  BOOST_WINDOWS :: bool
  BOOST_HAS_UNISTD_H :: bool
  POSIX_THREADS :: bool
  BOOST_HAS_PTHREADS :: bool

text \<open>
  The preprocessor state while the header is read adds the header's own macro
  \<open>BOOST_MUTEX_HELPER\<close>: \<open>None\<close> while it is not defined, otherwise its value.
\<close>

record macros = predefined +
  BOOST_MUTEX_HELPER :: "nat option"

definition enter_header :: "predefined \<Rightarrow> macros" where
  "enter_header cfg =
     \<lparr>BOOST_HAS_THREADS = BOOST_HAS_THREADS cfg,
      BOOST_NO_MT = BOOST_NO_MT cfg,
      BOOST_WINDOWS = BOOST_WINDOWS cfg,
      BOOST_HAS_UNISTD_H = BOOST_HAS_UNISTD_H cfg,
      POSIX_THREADS = POSIX_THREADS cfg,
      BOOST_HAS_PTHREADS = BOOST_HAS_PTHREADS cfg,
      BOOST_MUTEX_HELPER = None\<rparr>"

text \<open>Lines 40 to 42.\<close>

definition BOOST_MUTEX_HELPER_NONE :: nat where
  "BOOST_MUTEX_HELPER_NONE = 0"

definition BOOST_MUTEX_HELPER_WIN32 :: nat where
  "BOOST_MUTEX_HELPER_WIN32 = 1"

definition BOOST_MUTEX_HELPER_PTHREAD :: nat where
  "BOOST_MUTEX_HELPER_PTHREAD = 2"

subsection \<open>Choosing the helper\<close>

text \<open>
  Lines 44 to 46: when the platform has no threads and \<open>BOOST_NO_MT\<close> is not defined, the
  header defines it.
\<close>

definition define_NO_MT :: "macros \<Rightarrow> macros" where
  "define_NO_MT m =
     (if \<not> BOOST_HAS_THREADS m \<and> \<not> BOOST_NO_MT m then m\<lparr>BOOST_NO_MT := True\<rparr> else m)"

text \<open>
  Line 56 includes the system header \<open><unistd.h>\<close>, which is not part of the
  repository. The one effect it can have on this header is to define \<open>_POSIX_THREADS\<close>;
  whether it does is the parameter \<open>unistd\<close>.
\<close>

definition include_unistd_h :: "bool \<Rightarrow> macros \<Rightarrow> macros" where
  "include_unistd_h unistd m = (if unistd then m\<lparr>POSIX_THREADS := True\<rparr> else m)"

text \<open>Lines 48 to 62. The innermost \<open>#if\<close> has no \<open>#else\<close>: the macro may stay undefined.\<close>

definition define_MUTEX_HELPER :: "bool \<Rightarrow> macros \<Rightarrow> macros" where
  "define_MUTEX_HELPER unistd m =
     (if BOOST_NO_MT m then m\<lparr>BOOST_MUTEX_HELPER := Some BOOST_MUTEX_HELPER_NONE\<rparr>
      else if BOOST_WINDOWS m then m\<lparr>BOOST_MUTEX_HELPER := Some BOOST_MUTEX_HELPER_WIN32\<rparr>
      else
        let m1 = (if BOOST_HAS_UNISTD_H m then include_unistd_h unistd m else m) in
        if POSIX_THREADS m1 \<or> BOOST_HAS_PTHREADS m1
        then m1\<lparr>BOOST_MUTEX_HELPER := Some BOOST_MUTEX_HELPER_PTHREAD\<rparr>
        else m1)"

text \<open>
  What stops the translation: the \<open>#error\<close> of line 65, or a \<open>typedef\<close> that names a
  class that was not declared.
\<close>

datatype variant = win32_mutex | pthread_mutex | null_mutex

datatype diagnostic = Unable_to_determine_platform_mutex_type | Undeclared variant

text \<open>Lines 64 to 66.\<close>

definition check_MUTEX_HELPER :: "macros \<Rightarrow> diagnostic + macros" where
  "check_MUTEX_HELPER m =
     (case BOOST_MUTEX_HELPER m of
        None \<Rightarrow> Inl Unable_to_determine_platform_mutex_type
      | Some h \<Rightarrow> Inr m)"

subsection \<open>The classes that are declared and the typedef\<close>

text \<open>
  Lines 82 to 149: the conditional sections around the three class definitions. The
  includes of lines 68 to 75 (\<open><windows.h>\<close>, \<open><pthread.h>\<close>) are taken not to define
  any macro that the header tests.
\<close>

definition declared :: "macros \<Rightarrow> variant list" where
  "declared m =
     (if \<not> BOOST_NO_MT m
      then (if BOOST_WINDOWS m then [win32_mutex] else []) @
           (if POSIX_THREADS m \<or> BOOST_HAS_PTHREADS m then [pthread_mutex] else [])
      else []) @
     [null_mutex]"

text \<open>
  Lines 151 to 157. In an \<open>#if\<close> expression an identifier that is not a defined macro
  has the value 0; the chain has no \<open>#else\<close>.
\<close>

definition value_in_if :: "nat option \<Rightarrow> nat" where
  "value_in_if v = (case v of None \<Rightarrow> 0 | Some n \<Rightarrow> n)"

definition typedef_default_mutex :: "macros \<Rightarrow> variant option" where
  "typedef_default_mutex m =
     (if value_in_if (BOOST_MUTEX_HELPER m) = BOOST_MUTEX_HELPER_NONE then Some null_mutex
      else if value_in_if (BOOST_MUTEX_HELPER m) = BOOST_MUTEX_HELPER_WIN32 then Some win32_mutex
      else if value_in_if (BOOST_MUTEX_HELPER m) = BOOST_MUTEX_HELPER_PTHREAD
      then Some pthread_mutex
      else None)"

text \<open>
  What a translation unit sees after the header: the classes of namespace
  \<open>boost::details::pool\<close> and the class, if any, that \<open>default_mutex\<close> names.
\<close>

record translation_unit =
  classes :: "variant list"
  default_mutex :: "variant option"

definition mutex_hpp :: "bool \<Rightarrow> predefined \<Rightarrow> diagnostic + translation_unit" where
  "mutex_hpp unistd cfg =
     (case check_MUTEX_HELPER (define_MUTEX_HELPER unistd (define_NO_MT (enter_header cfg))) of
        Inl d \<Rightarrow> Inl d
      | Inr m \<Rightarrow>
          (case typedef_default_mutex m of
             None \<Rightarrow> Inr \<lparr>classes = declared m, default_mutex = None\<rparr>
           | Some c \<Rightarrow>
               if c \<in> set (declared m)
               then Inr \<lparr>classes = declared m, default_mutex = Some c\<rparr>
               else Inl (Undeclared c)))"

text \<open>
  The two conditions the selection depends on, read off the preprocessor state:
  \<open>BOOST_NO_MT\<close> when line 48 tests it, and the test of line 58.
\<close>

definition NO_MT_at_line_48 :: "predefined \<Rightarrow> bool" where
  "NO_MT_at_line_48 cfg = BOOST_NO_MT (define_NO_MT (enter_header cfg))"

definition pthreads_at_line_58 :: "bool \<Rightarrow> predefined \<Rightarrow> bool" where
  "pthreads_at_line_58 unistd cfg =
     (let m = define_NO_MT (enter_header cfg);
          m1 = (if BOOST_HAS_UNISTD_H m then include_unistd_h unistd m else m)
      in POSIX_THREADS m1 \<or> BOOST_HAS_PTHREADS m1)"

subsection \<open>The native functions\<close>

text \<open>
  The member functions call the platform through eight functions, each on the address
  of the member \<open>mtx\<close>. \<open>mtx\<close> is the only data member of its class, so its address is
  the address of the object. The constructors below are the calls; \<open>sys_\<close> stands for
  the global scope \<open>::\<close> of the source.
\<close>

type_synonym addr = nat

datatype native_call =
    sys_InitializeCriticalSection addr
  | sys_DeleteCriticalSection addr
  | sys_EnterCriticalSection addr
  | sys_LeaveCriticalSection addr
  | sys_pthread_mutex_init addr
  | sys_pthread_mutex_destroy addr
  | sys_pthread_mutex_lock addr
  | sys_pthread_mutex_unlock addr

text \<open>
  The state of the program, as far as the header can change it, is the sequence of
  native calls made so far. Everything else of the program state is the extension part
  of the record, which no function below can name.
\<close>

record world =
  calls :: "native_call list"

text \<open>
  The platform is not part of the repository, so nothing is fixed about it: given the
  calls made so far, \<open>acquires\<close> says whether a request to enter or lock comes back to
  its caller, and \<open>status\<close> is the \<open>int\<close> a function returns (the four functions of
  Windows return \<open>void\<close>; the value is not used for them). The six functions that
  initialise, destroy, leave and unlock are taken to return always.
\<close>

record os =
  acquires :: "native_call list \<Rightarrow> addr \<Rightarrow> bool"
  status :: "native_call list \<Rightarrow> native_call \<Rightarrow> int"

text \<open>
  A call either returns a value to its caller or leaves the caller blocked inside it.
\<close>

datatype ('r, 'w) outcome = Returned 'r 'w | Blocked 'w

fun waits_on :: "native_call \<Rightarrow> addr option" where
  "waits_on (sys_EnterCriticalSection h) = Some h"
| "waits_on (sys_pthread_mutex_lock h) = Some h"
| "waits_on _ = None"

definition native :: "os \<Rightarrow> native_call \<Rightarrow> 'a world_scheme \<Rightarrow> (int, 'a world_scheme) outcome" where
  "native p c w =
     (let w' = w\<lparr>calls := calls w @ [c]\<rparr> in
      case waits_on c of
        None \<Rightarrow> Returned (status p (calls w) c) w'
      | Some h \<Rightarrow>
          if acquires p (calls w) h then Returned (status p (calls w) c) w' else Blocked w')"

text \<open>
  Every member function is an expression statement \<open>{ ::f(&mtx); }\<close> in a function
  returning \<open>void\<close>: the value of the call is dropped.
\<close>

fun discard :: "('r, 'w) outcome \<Rightarrow> (unit, 'w) outcome" where
  "discard (Returned r w) = Returned () w"
| "discard (Blocked w) = Blocked w"

subsection \<open>class win32_mutex (lines 86 to 106)\<close>

definition win32_mutex_ctor :: "os \<Rightarrow> addr \<Rightarrow> 'a world_scheme \<Rightarrow> (unit, 'a world_scheme) outcome" where
  "win32_mutex_ctor p this w = discard (native p (sys_InitializeCriticalSection this) w)"

definition win32_mutex_dtor :: "os \<Rightarrow> addr \<Rightarrow> 'a world_scheme \<Rightarrow> (unit, 'a world_scheme) outcome" where
  "win32_mutex_dtor p this w = discard (native p (sys_DeleteCriticalSection this) w)"

definition win32_mutex_lock :: "os \<Rightarrow> addr \<Rightarrow> 'a world_scheme \<Rightarrow> (unit, 'a world_scheme) outcome" where
  "win32_mutex_lock p this w = discard (native p (sys_EnterCriticalSection this) w)"

definition win32_mutex_unlock :: "os \<Rightarrow> addr \<Rightarrow> 'a world_scheme \<Rightarrow> (unit, 'a world_scheme) outcome" where
  "win32_mutex_unlock p this w = discard (native p (sys_LeaveCriticalSection this) w)"

subsection \<open>class pthread_mutex (lines 112 to 132)\<close>

definition pthread_mutex_ctor :: "os \<Rightarrow> addr \<Rightarrow> 'a world_scheme \<Rightarrow> (unit, 'a world_scheme) outcome" where
  "pthread_mutex_ctor p this w = discard (native p (sys_pthread_mutex_init this) w)"

definition pthread_mutex_dtor :: "os \<Rightarrow> addr \<Rightarrow> 'a world_scheme \<Rightarrow> (unit, 'a world_scheme) outcome" where
  "pthread_mutex_dtor p this w = discard (native p (sys_pthread_mutex_destroy this) w)"

definition pthread_mutex_lock :: "os \<Rightarrow> addr \<Rightarrow> 'a world_scheme \<Rightarrow> (unit, 'a world_scheme) outcome" where
  "pthread_mutex_lock p this w = discard (native p (sys_pthread_mutex_lock this) w)"

definition pthread_mutex_unlock :: "os \<Rightarrow> addr \<Rightarrow> 'a world_scheme \<Rightarrow> (unit, 'a world_scheme) outcome" where
  "pthread_mutex_unlock p this w = discard (native p (sys_pthread_mutex_unlock this) w)"

subsection \<open>class null_mutex (lines 138 to 149)\<close>

text \<open>
  The constructor has an empty body and the class declares no destructor, so the
  destructor is the implicit one of a class without members. \<open>lock\<close> and \<open>unlock\<close> are
  declared \<open>static\<close>: they have no \<open>this\<close>, and their bodies are empty.
\<close>

definition null_mutex_ctor :: "addr \<Rightarrow> 'w \<Rightarrow> (unit, 'w) outcome" where
  "null_mutex_ctor this w = Returned () w"

definition null_mutex_dtor :: "addr \<Rightarrow> 'w \<Rightarrow> (unit, 'w) outcome" where
  "null_mutex_dtor this w = Returned () w"

definition null_mutex_lock :: "'w \<Rightarrow> (unit, 'w) outcome" where
  "null_mutex_lock w = Returned () w"

definition null_mutex_unlock :: "'w \<Rightarrow> (unit, 'w) outcome" where
  "null_mutex_unlock w = Returned () w"

subsection \<open>Code written against the common interface\<close>

text \<open>
  A client uses one of the classes through the name \<open>default_mutex\<close> (or a template
  parameter): it declares an object, which runs the constructor, calls \<open>m.lock()\<close> and
  \<open>m.unlock()\<close>, and the object is destroyed at the end of its scope. For \<open>null_mutex\<close>
  the expression \<open>m.lock()\<close> calls the static function; the object is not passed.
\<close>

datatype operation = Construct | Destruct | Lock | Unlock

fun call :: "os \<Rightarrow> variant \<Rightarrow> operation \<Rightarrow> addr \<Rightarrow> 'a world_scheme \<Rightarrow> (unit, 'a world_scheme) outcome" where
  "call p win32_mutex Construct this = win32_mutex_ctor p this"
| "call p win32_mutex Destruct this = win32_mutex_dtor p this"
| "call p win32_mutex Lock this = win32_mutex_lock p this"
| "call p win32_mutex Unlock this = win32_mutex_unlock p this"
| "call p pthread_mutex Construct this = pthread_mutex_ctor p this"
| "call p pthread_mutex Destruct this = pthread_mutex_dtor p this"
| "call p pthread_mutex Lock this = pthread_mutex_lock p this"
| "call p pthread_mutex Unlock this = pthread_mutex_unlock p this"
| "call p null_mutex Construct this = null_mutex_ctor this"
| "call p null_mutex Destruct this = null_mutex_dtor this"
| "call p null_mutex Lock this = null_mutex_lock"
| "call p null_mutex Unlock this = null_mutex_unlock"

text \<open>
  Statements in sequence, in one thread: the next statement runs when the one before
  has returned; a call that does not return ends the sequence there.
\<close>

fun run :: "('w \<Rightarrow> (unit, 'w) outcome) list \<Rightarrow> 'w \<Rightarrow> (unit, 'w) outcome" where
  "run [] w = Returned () w"
| "run (f # fs) w = (case f w of Returned u w' \<Rightarrow> run fs w' | Blocked w' \<Rightarrow> Blocked w')"

subsection \<open>Native objects that are initialised and not yet destroyed\<close>

text \<open>
  Read off the calls. An initialising call is outstanding until the destroying call of
  its own family on the same handle: \<open>DeleteCriticalSection\<close> undoes
  \<open>InitializeCriticalSection\<close>, \<open>pthread_mutex_destroy\<close> undoes \<open>pthread_mutex_init\<close>.
  The other calls change nothing. \<open>allocated\<close> is the multiset of outstanding
  initialising calls.
\<close>

fun account :: "native_call multiset \<Rightarrow> native_call \<Rightarrow> native_call multiset" where
  "account A (sys_InitializeCriticalSection h) = add_mset (sys_InitializeCriticalSection h) A"
| "account A (sys_DeleteCriticalSection h) = A - {#sys_InitializeCriticalSection h#}"
| "account A (sys_pthread_mutex_init h) = add_mset (sys_pthread_mutex_init h) A"
| "account A (sys_pthread_mutex_destroy h) = A - {#sys_pthread_mutex_init h#}"
| "account A _ = A"

definition allocated :: "native_call list \<Rightarrow> native_call multiset" where
  "allocated cs = foldl account {#} cs"

text \<open>
  What initialising and destroying the native handle of an object means for each class:
  the member \<open>mtx\<close> is a \<open>CRITICAL_SECTION\<close> in \<open>win32_mutex\<close> (line 89), a
  \<open>pthread_mutex_t\<close> in \<open>pthread_mutex\<close> (line 115), and \<open>null_mutex\<close> has no member, so
  nothing is to be done for it.
\<close>

fun initialising :: "variant \<Rightarrow> addr \<Rightarrow> native_call list" where
  "initialising win32_mutex h = [sys_InitializeCriticalSection h]"
| "initialising pthread_mutex h = [sys_pthread_mutex_init h]"
| "initialising null_mutex h = []"

fun destroying :: "variant \<Rightarrow> addr \<Rightarrow> native_call list" where
  "destroying win32_mutex h = [sys_DeleteCriticalSection h]"
| "destroying pthread_mutex h = [sys_pthread_mutex_destroy h]"
| "destroying null_mutex h = []"

subsection \<open>Concrete platforms and configurations\<close>

text \<open>
  A platform on which every request is granted and every call reports success, one that
  reports the error number 22 instead, and one that grants nothing.
\<close>

definition os_ok :: os where
  "os_ok = \<lparr>acquires = (\<lambda>cs h. True), status = (\<lambda>cs c. 0)\<rparr>"

definition os_failing :: os where
  "os_failing = \<lparr>acquires = (\<lambda>cs h. True), status = (\<lambda>cs c. 22)\<rparr>"

definition os_busy :: os where
  "os_busy = \<lparr>acquires = (\<lambda>cs h. False), status = (\<lambda>cs c. 0)\<rparr>"


definition unknown_threads_build :: predefined where
  "unknown_threads_build =
     \<lparr>BOOST_HAS_THREADS = True, BOOST_NO_MT = False, BOOST_WINDOWS = False,
      BOOST_HAS_UNISTD_H = False, POSIX_THREADS = False, BOOST_HAS_PTHREADS = False\<rparr>"

definition bare_build :: predefined where
  "bare_build =
     \<lparr>BOOST_HAS_THREADS = False, BOOST_NO_MT = False, BOOST_WINDOWS = False,
      BOOST_HAS_UNISTD_H = False, POSIX_THREADS = False, BOOST_HAS_PTHREADS = False\<rparr>"

section \<open>Properties\<close>

subsection \<open>The preprocessor conditions in terms of the predefined macros\<close>

lemma NO_MT_at_line_48_iff:
  "NO_MT_at_line_48 cfg \<longleftrightarrow> BOOST_NO_MT cfg \<or> \<not> BOOST_HAS_THREADS cfg"
  by (simp add: NO_MT_at_line_48_def define_NO_MT_def enter_header_def)

lemma pthreads_at_line_58_iff:
  "pthreads_at_line_58 unistd cfg \<longleftrightarrow>
     POSIX_THREADS cfg \<or> BOOST_HAS_PTHREADS cfg \<or> (BOOST_HAS_UNISTD_H cfg \<and> unistd)"
  by (auto simp: pthreads_at_line_58_def define_NO_MT_def enter_header_def
      include_unistd_h_def Let_def)

lemmas helper_values =
  BOOST_MUTEX_HELPER_NONE_def BOOST_MUTEX_HELPER_WIN32_def BOOST_MUTEX_HELPER_PTHREAD_def

subsection \<open>The four ways through the header\<close>

lemma mutex_hpp_no_mt:
  "NO_MT_at_line_48 cfg \<Longrightarrow>
     mutex_hpp unistd cfg = Inr \<lparr>classes = [null_mutex], default_mutex = Some null_mutex\<rparr>"
  by (simp add: mutex_hpp_def NO_MT_at_line_48_def define_MUTEX_HELPER_def
      check_MUTEX_HELPER_def typedef_default_mutex_def value_in_if_def declared_def helper_values)



lemma mutex_hpp_error:
  "\<not> NO_MT_at_line_48 cfg \<Longrightarrow> \<not> BOOST_WINDOWS cfg \<Longrightarrow> \<not> pthreads_at_line_58 unistd cfg \<Longrightarrow>
     mutex_hpp unistd cfg = Inl Unable_to_determine_platform_mutex_type"
  by (auto simp: mutex_hpp_def NO_MT_at_line_48_def pthreads_at_line_58_def
      define_MUTEX_HELPER_def define_NO_MT_def include_unistd_h_def
      enter_header_def check_MUTEX_HELPER_def Let_def split: if_splits)



text \<open>
  Claim C3, as stated, fails: in a build where no macro is defined, \<open>BOOST_NO_MT\<close> was
  not defined by anyone, the platform is not Windows and no POSIX threads are detected,
  yet lines 44 to 46 define \<open>BOOST_NO_MT\<close> and the translation succeeds with
  \<open>null_mutex\<close>; there is no \<open>#error\<close>.
\<close>

theorem undetected_platform_counterexample:
  "\<not> BOOST_NO_MT bare_build \<and> \<not> BOOST_WINDOWS bare_build \<and>
   \<not> pthreads_at_line_58 False bare_build \<and> \<not> pthreads_at_line_58 True bare_build \<and>
   mutex_hpp False bare_build = Inr \<lparr>classes = [null_mutex], default_mutex = Some null_mutex\<rparr> \<and>
   mutex_hpp True bare_build = Inr \<lparr>classes = [null_mutex], default_mutex = Some null_mutex\<rparr> \<and>
   mutex_hpp False bare_build \<noteq> Inl Unable_to_determine_platform_mutex_type"
proof -
  have "NO_MT_at_line_48 bare_build"
    by (simp add: NO_MT_at_line_48_iff bare_build_def)
  then have "mutex_hpp unistd bare_build =
      Inr \<lparr>classes = [null_mutex], default_mutex = Some null_mutex\<rparr>" for unistd
    by (rule mutex_hpp_no_mt)
  then show ?thesis
    by (simp add: pthreads_at_line_58_iff bare_build_def)
qed

text \<open>
  Claim C3, amended. When the platform reports threads (\<open>BOOST_HAS_THREADS\<close> is
  defined), \<open>BOOST_NO_MT\<close> is not defined, the platform is not Windows and no POSIX
  threads are detected, the translation stops at the \<open>#error\<close> of line 65; it does not
  go on to choose \<open>null_mutex\<close>.
\<close>

theorem undetected_platform_is_error:
  "BOOST_HAS_THREADS cfg \<Longrightarrow> \<not> BOOST_NO_MT cfg \<Longrightarrow> \<not> BOOST_WINDOWS cfg \<Longrightarrow>
   \<not> pthreads_at_line_58 unistd cfg \<Longrightarrow>
     mutex_hpp unistd cfg = Inl Unable_to_determine_platform_mutex_type"
  by (rule mutex_hpp_error) (simp_all add: NO_MT_at_line_48_iff)

theorem undetected_platform_is_error_witness:
  "BOOST_HAS_THREADS unknown_threads_build \<and> \<not> BOOST_NO_MT unknown_threads_build \<and>
   \<not> BOOST_WINDOWS unknown_threads_build \<and>
   \<not> pthreads_at_line_58 True unknown_threads_build \<and>
   mutex_hpp True unknown_threads_build = Inl Unable_to_determine_platform_mutex_type"
proof -
  have t: "BOOST_HAS_THREADS unknown_threads_build"
    by (simp add: unknown_threads_build_def)
  have a: "\<not> BOOST_NO_MT unknown_threads_build"
    by (simp add: unknown_threads_build_def)
  have b: "\<not> BOOST_WINDOWS unknown_threads_build"
    by (simp add: unknown_threads_build_def)
  have c: "\<not> pthreads_at_line_58 True unknown_threads_build"
    by (simp add: pthreads_at_line_58_iff unknown_threads_build_def)
  from undetected_platform_is_error [OF t a b c] t a b c show ?thesis
    by simp
qed

text \<open>
  Claim C9. When \<open>BOOST_HAS_THREADS\<close> is not defined and \<open>BOOST_NO_MT\<close> was not defined
  beforehand, lines 44 to 46 define \<open>BOOST_NO_MT\<close>; the translation succeeds, the only
  class declared is \<open>null_mutex\<close>, and \<open>default_mutex\<close> names it. This holds whatever
  the other macros are, so also on a platform where neither native family is found.
\<close>

theorem no_threads_selects_null_mutex:
  "\<not> BOOST_HAS_THREADS cfg \<Longrightarrow> \<not> BOOST_NO_MT cfg \<Longrightarrow>
     BOOST_NO_MT (define_NO_MT (enter_header cfg)) \<and>
     mutex_hpp unistd cfg = Inr \<lparr>classes = [null_mutex], default_mutex = Some null_mutex\<rparr>"
proof -
  assume "\<not> BOOST_HAS_THREADS cfg" and "\<not> BOOST_NO_MT cfg"
  then have "NO_MT_at_line_48 cfg"
    by (simp add: NO_MT_at_line_48_iff)
  then show ?thesis
    using mutex_hpp_no_mt [of cfg unistd] by (simp add: NO_MT_at_line_48_def)
qed

theorem no_threads_selects_null_mutex_witness:
  "\<not> BOOST_HAS_THREADS bare_build \<and> \<not> BOOST_NO_MT bare_build \<and>
   BOOST_NO_MT (define_NO_MT (enter_header bare_build)) \<and>
   mutex_hpp False bare_build = Inr \<lparr>classes = [null_mutex], default_mutex = Some null_mutex\<rparr>"
proof -
  have a: "\<not> BOOST_HAS_THREADS bare_build" and b: "\<not> BOOST_NO_MT bare_build"
    by (simp_all add: bare_build_def)
  from no_threads_selects_null_mutex [OF a b, of False] a b show ?thesis
    by simp
qed

subsection \<open>Sequences of calls\<close>

lemmas member_defs =
  win32_mutex_ctor_def win32_mutex_dtor_def win32_mutex_lock_def win32_mutex_unlock_def
  pthread_mutex_ctor_def pthread_mutex_dtor_def pthread_mutex_lock_def pthread_mutex_unlock_def
  null_mutex_ctor_def null_mutex_dtor_def null_mutex_lock_def null_mutex_unlock_def

lemma run_append:
  "run (fs @ gs) w = (case run fs w of Returned u w' \<Rightarrow> run gs w' | Blocked w' \<Rightarrow> Blocked w')"
  by (induction fs arbitrary: w) (auto split: outcome.splits)

lemma native_returns:
  "waits_on c = None \<Longrightarrow> discard (native p c w) = Returned () (w\<lparr>calls := calls w @ [c]\<rparr>)"
  by (simp add: native_def Let_def)

text \<open>
  Claim C4. Any sequence of calls of \<open>null_mutex::lock\<close> and \<open>null_mutex::unlock\<close>, of
  any length and in any order, returns, and leaves the whole program state as it was:
  no call blocks and none reports an error. The state \<open>w\<close> is of any type.
\<close>

theorem null_mutex_inert:
  "set fs \<subseteq> {null_mutex_lock, null_mutex_unlock} \<Longrightarrow> run fs w = Returned () w"
  by (induction fs) (auto simp: null_mutex_lock_def null_mutex_unlock_def)

theorem null_mutex_inert_witness:
  "set [null_mutex_unlock, null_mutex_lock, null_mutex_lock, null_mutex_unlock]
     \<subseteq> {null_mutex_lock, null_mutex_unlock :: world \<Rightarrow> (unit, world) outcome} \<and>
   run [null_mutex_unlock, null_mutex_lock, null_mutex_lock, null_mutex_unlock]
       \<lparr>calls = [sys_pthread_mutex_init 4]\<rparr>
     = Returned () \<lparr>calls = [sys_pthread_mutex_init 4]\<rparr>"
proof -
  have h: "set [null_mutex_unlock, null_mutex_lock, null_mutex_lock, null_mutex_unlock]
             \<subseteq> {null_mutex_lock, null_mutex_unlock :: world \<Rightarrow> (unit, world) outcome}"
    by simp
  from null_mutex_inert [OF h] h show ?thesis
    by simp
qed

subsection \<open>Constructors and destructors\<close>

lemma construct_calls:
  "call p v Construct h w = Returned () (w\<lparr>calls := calls w @ initialising v h\<rparr>)"
  by (cases v) (simp_all add: member_defs native_returns)

lemma destruct_calls:
  "call p v Destruct h w = Returned () (w\<lparr>calls := calls w @ destroying v h\<rparr>)"
  by (cases v) (simp_all add: member_defs native_returns)

lemma run_construct:
  "run (map (call p v Construct) hs) w =
     Returned () (w\<lparr>calls := calls w @ concat (map (initialising v) hs)\<rparr>)"
  by (induction hs arbitrary: w) (simp_all add: construct_calls)

lemma run_destruct:
  "run (map (call p v Destruct) hs) w =
     Returned () (w\<lparr>calls := calls w @ concat (map (destroying v) hs)\<rparr>)"
  by (induction hs arbitrary: w) (simp_all add: destruct_calls)

lemma account_initialising:
  "foldl account A (concat (map (initialising v) hs)) =
     A + mset (concat (map (initialising v) hs))"
  by (induction hs arbitrary: A) (cases v; simp)+

lemma account_destroying:
  "foldl account A (concat (map (destroying v) hs)) =
     A - mset (concat (map (initialising v) hs))"
proof (induction hs arbitrary: A)
  case Nil
  then show ?case by simp
next
  case (Cons h hs)
  then show ?case by (cases v) (simp_all add: diff_diff_add_mset)
qed

lemma mset_initialising:
  "mset ds = mset hs \<Longrightarrow>
     mset (concat (map (initialising v) ds)) = mset (concat (map (initialising v) hs))"
proof -
  assume "mset ds = mset hs"
  then have "image_mset (\<lambda>h. mset (initialising v h)) (mset ds) =
             image_mset (\<lambda>h. mset (initialising v h)) (mset hs)"
    by simp
  then have "sum_mset (image_mset (\<lambda>h. mset (initialising v h)) (mset ds)) =
             sum_mset (image_mset (\<lambda>h. mset (initialising v h)) (mset hs))"
    by simp
  moreover have "mset (concat (map (initialising v) xs)) =
                 sum_mset (image_mset (\<lambda>h. mset (initialising v h)) (mset xs))" for xs
    by (induction xs) simp_all
  ultimately show ?thesis by simp
qed

text \<open>
  Claim C7. For each of the three classes, objects are constructed at the addresses
  \<open>hs\<close>, never locked, and the same objects are destroyed in any order \<open>ds\<close>. The
  constructions return, and the native calls they make are exactly one initialising call
  for the handle of each object, in order (none for \<open>null_mutex\<close>, which has no handle);
  these calls are then all outstanding. The destructions return, and the native calls
  they make are exactly one destroying call, of the same family, for the handle of each
  object. Afterwards the outstanding native objects are the ones there were before; started
  where nothing is allocated, nothing is allocated at the end.
\<close>

theorem construct_destruct_symmetry:
  assumes "mset ds = mset hs"
  shows "\<exists>w1 w2.
           run (map (call p v Construct) hs) w = Returned () w1 \<and>
           calls w1 = calls w @ concat (map (initialising v) hs) \<and>
           allocated (calls w1) = allocated (calls w) + mset (concat (map (initialising v) hs)) \<and>
           run (map (call p v Destruct) ds) w1 = Returned () w2 \<and>
           calls w2 = calls w1 @ concat (map (destroying v) ds) \<and>
           allocated (calls w2) = allocated (calls w) \<and>
           run (map (call p v Construct) hs @ map (call p v Destruct) ds) w = Returned () w2"
proof -
  let ?w1 = "w\<lparr>calls := calls w @ concat (map (initialising v) hs)\<rparr>"
  let ?w2 = "?w1\<lparr>calls := calls ?w1 @ concat (map (destroying v) ds)\<rparr>"
  have c: "run (map (call p v Construct) hs) w = Returned () ?w1"
    by (rule run_construct)
  have d: "run (map (call p v Destruct) ds) ?w1 = Returned () ?w2"
    by (rule run_destruct)
  have a1: "allocated (calls ?w1) =
              allocated (calls w) + mset (concat (map (initialising v) hs))"
    by (simp add: allocated_def account_initialising)
  have "allocated (calls ?w2) =
          allocated (calls ?w1) - mset (concat (map (initialising v) ds))"
    by (simp add: allocated_def account_destroying del: foldl_append)
       (simp add: account_destroying)
  with a1 mset_initialising [OF assms, of v] have a2: "allocated (calls ?w2) = allocated (calls w)"
    by simp
  have "run (map (call p v Construct) hs @ map (call p v Destruct) ds) w = Returned () ?w2"
    using c d by (simp add: run_append)
  with c d a1 a2 show ?thesis
    by (intro exI [of _ ?w1] exI [of _ ?w2]) simp
qed

theorem construct_destruct_symmetry_witness:
  "mset [2, 1, 3] = mset [1, 2, 3::nat] \<and>
   run (map (call os_ok pthread_mutex Construct) [1, 2, 3]) \<lparr>calls = []\<rparr>
     = Returned ()
         \<lparr>calls = [sys_pthread_mutex_init 1, sys_pthread_mutex_init 2, sys_pthread_mutex_init 3]\<rparr> \<and>
   allocated [sys_pthread_mutex_init 1, sys_pthread_mutex_init 2, sys_pthread_mutex_init 3]
     = {#sys_pthread_mutex_init 1, sys_pthread_mutex_init 2, sys_pthread_mutex_init 3#} \<and>
   run (map (call os_ok pthread_mutex Construct) [1, 2, 3] @
        map (call os_ok pthread_mutex Destruct) [2, 1, 3]) \<lparr>calls = []\<rparr>
     = Returned ()
         \<lparr>calls = [sys_pthread_mutex_init 1, sys_pthread_mutex_init 2, sys_pthread_mutex_init 3,
                   sys_pthread_mutex_destroy 2, sys_pthread_mutex_destroy 1,
                   sys_pthread_mutex_destroy 3]\<rparr> \<and>
   allocated [sys_pthread_mutex_init 1, sys_pthread_mutex_init 2, sys_pthread_mutex_init 3,
              sys_pthread_mutex_destroy 2, sys_pthread_mutex_destroy 1,
              sys_pthread_mutex_destroy 3] = {#}"
proof -
  have h: "mset [2, 1, 3] = mset [1, 2, 3::nat]"
    by simp
  have c: "run (map (call os_ok pthread_mutex Construct) [1, 2, 3]) \<lparr>calls = []\<rparr>
     = Returned ()
         \<lparr>calls = [sys_pthread_mutex_init 1, sys_pthread_mutex_init 2, sys_pthread_mutex_init 3]\<rparr>"
    by (simp add: member_defs native_def os_ok_def)
  have r: "run (map (call os_ok pthread_mutex Construct) [1, 2, 3] @
                map (call os_ok pthread_mutex Destruct) [2, 1, 3]) \<lparr>calls = []\<rparr>
     = Returned ()
         \<lparr>calls = [sys_pthread_mutex_init 1, sys_pthread_mutex_init 2, sys_pthread_mutex_init 3,
                   sys_pthread_mutex_destroy 2, sys_pthread_mutex_destroy 1,
                   sys_pthread_mutex_destroy 3]\<rparr>"
    by (simp add: member_defs native_def os_ok_def)
  from construct_destruct_symmetry [OF h, of os_ok pthread_mutex "\<lparr>calls = []\<rparr>"] c r h
  show ?thesis by (simp add: allocated_def)
qed

subsection \<open>What a caller can observe of a call\<close>

text \<open>
  Claim C8. No operation of any class hands an error to its caller. Every call returns
  the empty value \<open>()\<close> of \<open>void\<close>, except that \<open>lock\<close> of a real class does not return
  while the platform does not grant the request. The status that the native function
  returns is not observed: two platforms that grant the same requests and differ only
  in the statuses they report give the same outcome for every operation.
\<close>

theorem status_not_observed:
  "acquires p = acquires q \<Longrightarrow>
     call p v opn this w = call q v opn this w \<and>
     ((\<exists>w'. call p v opn this w = Returned () w') \<or>
      (\<exists>w'. call p v opn this w = Blocked w' \<and> opn = Lock \<and> v \<noteq> null_mutex \<and>
            \<not> acquires p (calls w) this))"
  by (cases v; cases opn) (simp_all add: member_defs native_def Let_def)

theorem status_not_observed_witness:
  "acquires os_ok = acquires os_failing \<and>
   status os_ok [] (sys_pthread_mutex_init 5) \<noteq> status os_failing [] (sys_pthread_mutex_init 5) \<and>
   call os_ok pthread_mutex Construct 5 \<lparr>calls = []\<rparr> =
     call os_failing pthread_mutex Construct 5 \<lparr>calls = []\<rparr> \<and>
   call os_failing pthread_mutex Construct 5 \<lparr>calls = []\<rparr> =
     Returned () \<lparr>calls = [sys_pthread_mutex_init 5]\<rparr>"
proof -
  have h: "acquires os_ok = acquires os_failing"
    by (simp add: os_ok_def os_failing_def)
  from status_not_observed [OF h, of pthread_mutex Construct 5 "\<lparr>calls = []\<rparr>"] h
  show ?thesis
    by (simp add: os_ok_def os_failing_def member_defs native_def)
qed

subsection \<open>Static and non-static member functions\<close>

text \<open>
  Claim C10. \<open>null_mutex::lock\<close> and \<open>null_mutex::unlock\<close> are static: they take no
  object, and in any state, also one in which no \<open>null_mutex\<close> was ever constructed,
  they return at once and change nothing; called through an object, the result does not
  depend on which. The \<open>lock\<close> and \<open>unlock\<close> of the two real classes act on the object
  they are called on: for two different objects the outcomes differ.
\<close>

theorem null_mutex_static:
  "null_mutex_lock w = Returned () w \<and> null_mutex_unlock w = Returned () w \<and>
   call p null_mutex Lock this w = null_mutex_lock w \<and>
   call p null_mutex Unlock this w = null_mutex_unlock w \<and>
   (this \<noteq> this' \<longrightarrow>
      call p win32_mutex Lock this w \<noteq> call p win32_mutex Lock this' w \<and>
      call p win32_mutex Unlock this w \<noteq> call p win32_mutex Unlock this' w \<and>
      call p pthread_mutex Lock this w \<noteq> call p pthread_mutex Lock this' w \<and>
      call p pthread_mutex Unlock this w \<noteq> call p pthread_mutex Unlock this' w)"
  apply (simp add: member_defs native_def Let_def)
  apply (auto dest!: arg_cong [where f = calls])
  done

theorem null_mutex_static_witness:
  "(1::nat) \<noteq> 2 \<and>
   call os_busy null_mutex Lock 1 \<lparr>calls = []\<rparr> = Returned () \<lparr>calls = []\<rparr> \<and>
   call os_busy null_mutex Lock 2 \<lparr>calls = []\<rparr> = Returned () \<lparr>calls = []\<rparr> \<and>
   call os_busy pthread_mutex Lock 1 \<lparr>calls = []\<rparr> = Blocked \<lparr>calls = [sys_pthread_mutex_lock 1]\<rparr> \<and>
   call os_busy pthread_mutex Lock 1 \<lparr>calls = []\<rparr> \<noteq> call os_busy pthread_mutex Lock 2 \<lparr>calls = []\<rparr>"
proof -
  have h: "(1::nat) \<noteq> 2"
    by simp
  from null_mutex_static [of "\<lparr>calls = []\<rparr>" os_busy 1 2] h show ?thesis
    by (simp add: os_busy_def member_defs native_def)
qed

end
